theory Spec2Isabelle
  imports Main "HOL-Library.Sublist" "HOL-Library.AList" "HOL-Library.Multiset"
begin

section \<open>Strings and character classes\<close>

text \<open>
  A Python \<^verbatim>\<open>str\<close> is modelled as a \<^typ>\<open>string\<close>; a character is a code point
  below 256.  The character classes are those of Python's \<^verbatim>\<open>re\<close> on \<^verbatim>\<open>str\<close>
  patterns, restricted to that range: \<^verbatim>\<open>\s\<close> and \<^verbatim>\<open>str.strip\<close> use
  \<^verbatim>\<open>str.isspace\<close>, \<^verbatim>\<open>\w\<close> is \<^verbatim>\<open>str.isalnum\<close> or the underscore, and
  \<^verbatim>\<open>.\<close> is every character but the line feed (every character under \<^verbatim>\<open>re.S\<close>).
\<close>

definition newline :: char where
  "newline = CHR 0x0A"

definition is_space :: "char \<Rightarrow> bool" where
  "is_space c = (let n = (of_char c :: nat) in
     (9 \<le> n \<and> n \<le> 13) \<or> (28 \<le> n \<and> n \<le> 32) \<or> n = 133 \<or> n = 160)"

definition is_word :: "char \<Rightarrow> bool" where
  "is_word c = (let n = (of_char c :: nat) in
     (48 \<le> n \<and> n \<le> 57) \<or> (65 \<le> n \<and> n \<le> 90) \<or> n = 95 \<or> (97 \<le> n \<and> n \<le> 122)
     \<or> n = 170 \<or> n = 178 \<or> n = 179 \<or> n = 181 \<or> n = 185 \<or> n = 186
     \<or> (188 \<le> n \<and> n \<le> 190) \<or> (192 \<le> n \<and> n \<le> 214) \<or> (216 \<le> n \<and> n \<le> 246)
     \<or> (248 \<le> n \<and> n \<le> 255))"

definition lower_char :: "char \<Rightarrow> char" where
  "lower_char c = (let n = (of_char c :: nat) in
     if (65 \<le> n \<and> n \<le> 90) \<or> (192 \<le> n \<and> n \<le> 214) \<or> (216 \<le> n \<and> n \<le> 222)
     then char_of (n + 32) else c)"

definition lower :: "string \<Rightarrow> string" where
  "lower s = map lower_char s"

definition strip :: "string \<Rightarrow> string" where
  "strip s = rev (dropWhile is_space (rev (dropWhile is_space s)))"

text \<open>\<^verbatim>\<open>text.replace(old, new)\<close>: every non-overlapping occurrence, left to right, in one
  pass; the inserted text is not scanned again.  With an empty \<^verbatim>\<open>old\<close> Python inserts
  \<^verbatim>\<open>new\<close> before every character and at the end.\<close>

fun replace_scan :: "string \<Rightarrow> string \<Rightarrow> string \<Rightarrow> string" where
  "replace_scan old new [] = []"
| "replace_scan old new (c # cs) =
     (if prefix old (c # cs) then new @ replace_scan old new (drop (length old - 1) cs)
      else c # replace_scan old new cs)"

definition str_replace :: "string \<Rightarrow> string \<Rightarrow> string \<Rightarrow> string" where
  "str_replace text old new =
     (if old = [] then new @ concat (map (\<lambda>c. c # new) text) else replace_scan old new text)"

text \<open>\<open>starts_within kw pre rest\<close>: some occurrence of \<open>kw\<close> in \<open>pre @ rest\<close> starts
  inside \<open>pre\<close>.\<close>

fun starts_within :: "string \<Rightarrow> string \<Rightarrow> string \<Rightarrow> bool" where
  "starts_within kw [] rest = False"
| "starts_within kw (c # pre) rest = (prefix kw (c # pre @ rest) \<or> starts_within kw pre rest)"

text \<open>The text before and after the first occurrence of \<open>kw\<close>: what a lazy
  \<^verbatim>\<open>(.*?)kw\<close> under \<^verbatim>\<open>re.S\<close> captures and what it leaves.\<close>

fun split_first :: "string \<Rightarrow> string \<Rightarrow> (string \<times> string) option" where
  "split_first kw [] = (if kw = [] then Some ([], []) else None)"
| "split_first kw (c # cs) =
     (if prefix kw (c # cs) then Some ([], drop (length kw) (c # cs))
      else map_option (\<lambda>(b, a). (c # b, a)) (split_first kw cs))"

section \<open>Regular-expression scanning\<close>

text \<open>
  \<^verbatim>\<open>re.findall\<close>, \<^verbatim>\<open>re.finditer\<close>, \<^verbatim>\<open>re.sub\<close> and \<^verbatim>\<open>re.search\<close> walk the text from
  the left: at each position the pattern is tried; a match is taken and the walk goes on
  after it, otherwise the character is passed over.  A pattern is given by its matcher at
  the head of a text, returning the captured groups and the length of the match.  Every
  pattern of the program consumes at least one character.
\<close>

datatype 'g tok = Lit char | Hit 'g

fun re_scan :: "(string \<Rightarrow> ('g \<times> nat) option) \<Rightarrow> string \<Rightarrow> 'g tok list" where
  "re_scan m [] = []"
| "re_scan m (c # cs) =
     (case m (c # cs) of
        None \<Rightarrow> Lit c # re_scan m cs
      | Some (g, n) \<Rightarrow> Hit g # re_scan m (drop (n - 1) cs))"

fun tok_hits :: "'g tok list \<Rightarrow> 'g list" where
  "tok_hits [] = []"
| "tok_hits (Lit c # ts) = tok_hits ts"
| "tok_hits (Hit g # ts) = g # tok_hits ts"

fun tok_render :: "('g \<Rightarrow> string) \<Rightarrow> 'g tok list \<Rightarrow> string" where
  "tok_render f [] = []"
| "tok_render f (Lit c # ts) = c # tok_render f ts"
| "tok_render f (Hit g # ts) = f g @ tok_render f ts"

definition re_findall :: "(string \<Rightarrow> ('g \<times> nat) option) \<Rightarrow> string \<Rightarrow> 'g list" where
  "re_findall m s = tok_hits (re_scan m s)"

definition re_sub :: "(string \<Rightarrow> ('g \<times> nat) option) \<Rightarrow> ('g \<Rightarrow> string) \<Rightarrow> string \<Rightarrow> string" where
  "re_sub m f s = tok_render f (re_scan m s)"

fun re_search :: "(string \<Rightarrow> ('g \<times> nat) option) \<Rightarrow> string \<Rightarrow> 'g option" where
  "re_search m [] = None"
| "re_search m (c # cs) = (case m (c # cs) of None \<Rightarrow> re_search m cs | Some (g, n) \<Rightarrow> Some g)"


section \<open>Alert blocks\<close>

text \<open>
  \<^verbatim>\<open>@alert (\w+)\n(.*?)@endalert\<close> under \<^verbatim>\<open>re.S\<close>.  The greedy \<^verbatim>\<open>\w+\<close> takes the
  whole run of word characters; giving some back cannot help, the line feed not being a
  word character.  The lazy body ends at the first \<^verbatim>\<open>@endalert\<close>.
\<close>

definition alert_match :: "string \<Rightarrow> ((string \<times> string) \<times> nat) option" where
  "alert_match s =
     (if prefix ''@alert '' s then
        (let r = drop 7 s; ty = takeWhile is_word r in
         if ty = [] then None
         else (case dropWhile is_word r of
                 [] \<Rightarrow> None
               | d # r' \<Rightarrow>
                   if d = newline then
                     (case split_first ''@endalert'' r' of
                        None \<Rightarrow> None
                      | Some (body, rest) \<Rightarrow> Some ((ty, body), 7 + length ty + 1 + length body + 9))
                   else None))
      else None)"




section \<open>Lines\<close>

text \<open>
  Under \<^verbatim>\<open>re.M\<close> the anchor \<^verbatim>\<open>^\<close> matches at the start of the text and after every line
  feed, \<^verbatim>\<open>$\<close> at the end of the text and before every line feed, and \<^verbatim>\<open>.\<close> does not
  cross a line feed: a pattern \<^verbatim>\<open>^...(.+)$\<close> matches whole lines, and \<^verbatim>\<open>re.sub\<close> with it
  rewrites the text line by line.
\<close>

fun split_nl :: "string \<Rightarrow> string list" where
  "split_nl [] = [[]]"
| "split_nl (c # cs) =
     (if c = newline then [] # split_nl cs
      else (case split_nl cs of [] \<Rightarrow> [[c]] | l # ls \<Rightarrow> (c # l) # ls))"

fun join_nl :: "string list \<Rightarrow> string" where
  "join_nl [] = []"
| "join_nl [l] = l"
| "join_nl (l # ls) = l @ newline # join_nl ls"

definition sub_lines :: "(string \<Rightarrow> string) \<Rightarrow> string \<Rightarrow> string" where
  "sub_lines f text = join_nl (map f (split_nl text))"

section \<open>Include resolver\<close>

text \<open>\<^verbatim>\<open>@include (.+)\<close>: the directive and the rest of its line.\<close>

definition include_match :: "string \<Rightarrow> (string \<times> nat) option" where
  "include_match s =
     (if prefix ''@include '' s then
        (case takeWhile (\<lambda>c. c \<noteq> newline) (drop 9 s) of
           [] \<Rightarrow> None
         | c # g \<Rightarrow> Some (c # g, 9 + length (c # g)))
      else None)"

text \<open>The file system as the resolver sees it: \<^verbatim>\<open>os.path.exists\<close> holds of files and of
  directories, and \<^verbatim>\<open>open\<close> raises on a directory.\<close>

datatype fs_entry = File string | Dir

datatype error = IsADirectoryError string

type_synonym filesystem = "string \<Rightarrow> fs_entry option"

text \<open>\<^verbatim>\<open>os.path.join(base_dir or "", include_path)\<close> on POSIX.\<close>

definition path_join :: "string \<Rightarrow> string \<Rightarrow> string" where
  "path_join base p =
     (if prefix ''/'' p then p
      else if base = [] \<or> suffix ''/'' base then base @ p
      else base @ ''/'' @ p)"

definition missing_marker :: "string \<Rightarrow> string" where
  "missing_marker include_path = ''<div class='' @ [CHR 0x27] @ ''error'' @ [CHR 0x27]
      @ ''>Missing include: '' @ include_path @ ''</div>''"

definition include_step :: "filesystem \<Rightarrow> string \<Rightarrow> string \<Rightarrow> string \<Rightarrow> error + string" where
  "include_step fs base text g =
     (let include_path = strip g;
          full_path = path_join base include_path
      in case fs full_path of
           Some (File included_content) \<Rightarrow>
             Inr (str_replace text (''@include '' @ g) included_content)
         | Some Dir \<Rightarrow> Inl (IsADirectoryError full_path)
         | None \<Rightarrow> Inr (str_replace text (''@include '' @ g) (missing_marker include_path)))"

text \<open>The \<^verbatim>\<open>while\<close> loop of lines 15 to 25; \<open>None\<close> is a run that never leaves the loop.\<close>

partial_function (option) include_loop :: "filesystem \<Rightarrow> string \<Rightarrow> string \<Rightarrow> (error + string) option" where
  "include_loop fs base text =
     (case re_search include_match text of
        None \<Rightarrow> Some (Inr text)
      | Some g \<Rightarrow>
          (case include_step fs base text g of
             Inl e \<Rightarrow> Some (Inl e)
           | Inr text' \<Rightarrow> include_loop fs base text'))"

section \<open>Metadata extractor\<close>

text \<open>
  \<^verbatim>\<open>@title:\s*(.+)\<close>.  The greedy \<^verbatim>\<open>\s*\<close> first takes the whole run of white space (line
  feeds included) and gives characters back one at a time until \<^verbatim>\<open>.+\<close> finds a character
  that is not a line feed; \<^verbatim>\<open>.+\<close> then runs to the end of that line.
\<close>

fun title_backtrack :: "nat \<Rightarrow> string \<Rightarrow> (string \<times> nat) option" where
  "title_backtrack 0 r =
     (case takeWhile (\<lambda>c. c \<noteq> newline) r of
        [] \<Rightarrow> None
      | c # g \<Rightarrow> Some (c # g, 7 + length (c # g)))"
| "title_backtrack (Suc k) r =
     (case takeWhile (\<lambda>c. c \<noteq> newline) (drop (Suc k) r) of
        [] \<Rightarrow> title_backtrack k r
      | c # g \<Rightarrow> Some (c # g, 7 + Suc k + length (c # g)))"

definition title_match :: "string \<Rightarrow> (string \<times> nat) option" where
  "title_match s =
     (if prefix ''@title:'' s
      then title_backtrack (length (takeWhile is_space (drop 7 s))) (drop 7 s)
      else None)"

definition extract_title :: "string \<Rightarrow> string" where
  "extract_title text =
     (case re_search title_match text of Some g \<Rightarrow> g | None \<Rightarrow> ''Documentation'')"

definition strip_titles :: "string \<Rightarrow> string" where
  "strip_titles text = re_sub title_match (\<lambda>g. []) text"

section \<open>Variable engine\<close>

text \<open>\<^verbatim>\<open>@var (\w+)=(.+)\<close>.  A \<^verbatim>\<open>dict\<close> keeps its keys in insertion order and an
  assignment to a present key keeps the key's place: an association list under
  \<^const>\<open>AList.update\<close>.\<close>

definition var_match :: "string \<Rightarrow> ((string \<times> string) \<times> nat) option" where
  "var_match s =
     (if prefix ''@var '' s then
        (let r = drop 5 s; name = takeWhile is_word r in
         if name = [] then None
         else (case dropWhile is_word r of
                 [] \<Rightarrow> None
               | d # r' \<Rightarrow>
                   if d = CHR ''='' then
                     (case takeWhile (\<lambda>c. c \<noteq> newline) r' of
                        [] \<Rightarrow> None
                      | c # v \<Rightarrow> Some ((name, c # v), 5 + length name + 1 + length (c # v)))
                   else None))
      else None)"

type_synonym vars = "(string \<times> string) list"

definition collect_vars :: "vars \<Rightarrow> string \<Rightarrow> vars" where
  "collect_vars vars_dict text =
     fold (\<lambda>m d. AList.update (fst m) (strip (snd m)) d) (re_findall var_match text) vars_dict"

text \<open>The declarations of a buffer as a map from names to trimmed values, a later
  declaration of a name overriding an earlier one.\<close>

definition declared :: "string \<Rightarrow> (string \<rightharpoonup> string)" where
  "declared text = map_of (rev (map (\<lambda>m. (fst m, strip (snd m))) (re_findall var_match text)))"

definition strip_vars :: "string \<Rightarrow> string" where
  "strip_vars text = re_sub var_match (\<lambda>g. []) text"

definition substitute_vars :: "vars \<Rightarrow> string \<Rightarrow> string" where
  "substitute_vars vars_dict text =
     fold (\<lambda>kv t. str_replace t (CHR ''@'' # fst kv) (snd kv)) vars_dict text"


text \<open>
  The caller's table is a mutable object.  Objects live in a store of tables addressed
  by references; \<^verbatim>\<open>vars_dict = vars_dict or {}\<close> keeps the caller's reference when its table
  is non-empty and allocates a fresh table when the argument is \<^verbatim>\<open>None\<close> or an empty
  table (an empty \<^verbatim>\<open>dict\<close> is falsy).
\<close>

record heap =
  dicts :: "nat \<Rightarrow> vars"
  next_ref :: nat

definition alloc_dict :: "heap \<Rightarrow> heap \<times> nat" where
  "alloc_dict h = (h\<lparr>dicts := (dicts h)(next_ref h := []), next_ref := Suc (next_ref h)\<rparr>, next_ref h)"

definition bind_vars :: "heap \<Rightarrow> nat option \<Rightarrow> heap \<times> nat" where
  "bind_vars h vars_arg =
     (case vars_arg of
        None \<Rightarrow> alloc_dict h
      | Some r \<Rightarrow> if dicts h r \<noteq> [] then (h, r) else alloc_dict h)"

section \<open>Conditional evaluator\<close>

text \<open>
  \<^verbatim>\<open>@if (\w+)=(.+?)\n(.*?)@endif\<close> under \<^verbatim>\<open>re.S\<close>.  The lazy value takes one character
  (any character) and then runs to the first line feed after which an \<^verbatim>\<open>@endif\<close> occurs;
  if none occurs after the first line feed none occurs after a later one.  The lazy block
  runs to the first \<^verbatim>\<open>@endif\<close>.
\<close>

definition if_match :: "string \<Rightarrow> ((string \<times> string \<times> string) \<times> nat) option" where
  "if_match s =
     (if prefix ''@if '' s then
        (let r = drop 4 s; var = takeWhile is_word r in
         if var = [] then None
         else (case dropWhile is_word r of
                 [] \<Rightarrow> None
               | d # r1 \<Rightarrow>
                   if d = CHR ''='' then
                     (case r1 of
                        [] \<Rightarrow> None
                      | c # r2 \<Rightarrow>
                          (case split_first [newline] r2 of
                             None \<Rightarrow> None
                           | Some (v, r3) \<Rightarrow>
                               (case split_first ''@endif'' r3 of
                                  None \<Rightarrow> None
                                | Some (block, rest) \<Rightarrow>
                                    Some ((var, c # v, block),
                                      4 + length var + 1 + length (c # v) + 1 + length block + 6))))
                   else None))
      else None)"

definition truthy :: "string option \<Rightarrow> bool" where
  "truthy platform = (case platform of None \<Rightarrow> False | Some p \<Rightarrow> p \<noteq> [])"

definition cond_replace :: "string option \<Rightarrow> string \<times> string \<times> string \<Rightarrow> string \<Rightarrow> string" where
  "cond_replace platform cond text =
     (case cond of (var, value, block) \<Rightarrow>
        if truthy platform \<and> var = ''PLATFORM'' \<and> platform = Some value
        then str_replace text (''@if '' @ var @ ''='' @ value @ [newline] @ block @ ''@endif'') block
        else str_replace text (''@if '' @ var @ ''='' @ value @ [newline] @ block @ ''@endif'') [])"

definition cond_stage :: "string option \<Rightarrow> string \<Rightarrow> string" where
  "cond_stage platform text = fold (cond_replace platform) (re_findall if_match text) text"

section \<open>The front of \<^verbatim>\<open>parse_ldoc\<close>\<close>

text \<open>
  Lines 8 to 50: the table is bound, includes are resolved, the title is taken and its
  lines removed, variables are collected into the table and substituted, conditionals are
  evaluated.  \<open>title\<close> is assigned once, on line 30, and returned on line 175.
\<close>

record front =
  buffer :: string
  title :: string
  store :: heap
  vars_ref :: nat

definition front_stages :: "heap \<Rightarrow> nat \<Rightarrow> string option \<Rightarrow> string \<Rightarrow> front" where
  "front_stages h r platform text =
     (let title = extract_title text;
          text = strip_titles text;
          d = collect_vars (dicts h r) text;
          text = strip_vars text;
          text = substitute_vars d text;
          text = cond_stage platform text
      in \<lparr>buffer = text, title = title, store = h\<lparr>dicts := (dicts h)(r := d)\<rparr>, vars_ref = r\<rparr>)"

definition parse_front ::
    "filesystem \<Rightarrow> heap \<Rightarrow> string \<Rightarrow> string option \<Rightarrow> nat option \<Rightarrow> string option \<Rightarrow> (error + front) option" where
  "parse_front fs h text base_dir vars_arg platform =
     (case bind_vars h vars_arg of (h', r) \<Rightarrow>
        (case include_loop fs (case base_dir of None \<Rightarrow> [] | Some b \<Rightarrow> b) text of
           None \<Rightarrow> None
         | Some (Inl e) \<Rightarrow> Some (Inl e)
         | Some (Inr text') \<Rightarrow> Some (Inr (front_stages h' r platform text'))))"

section \<open>Table of contents and headings\<close>

fun show_nat :: "nat \<Rightarrow> string" where
  "show_nat n = (if n < 10 then [char_of (48 + n)] else show_nat (n div 10) @ [char_of (48 + n mod 10)])"

declare show_nat.simps [simp del]

text \<open>
  \<^verbatim>\<open>^(#{1,3}) (.+)$\<close> on one line (line 66): one to three \<^verbatim>\<open>#\<close>, a space, a non-empty text.  On a
  line that starts with four \<^verbatim>\<open>#\<close> the pattern fails: after at most three of them the
  next character is not a space.
\<close>

definition toc_match :: "string \<Rightarrow> (nat \<times> string) option" where
  "toc_match l =
     (let k = length (takeWhile (\<lambda>c. c = CHR ''#'') l) in
      if 1 \<le> k \<and> k \<le> 3 then
        (case drop k l of
           [] \<Rightarrow> None
         | sp # h \<Rightarrow> if sp = CHR '' '' \<and> h \<noteq> [] then Some (k, h) else None)
      else None)"

definition toc_entries :: "string \<Rightarrow> (nat \<times> string \<times> string) list" where
  "toc_entries text =
     List.map_filter
       (\<lambda>l. map_option
          (\<lambda>(level, heading_text).
             (level, heading_text, str_replace (lower heading_text) '' '' ''-''))
          (toc_match l))
       (split_nl text)"

definition toc_item :: "nat \<times> string \<times> string \<Rightarrow> string" where
  "toc_item e =
     (case e of (level, heading_text, anchor) \<Rightarrow>
        ''<li class='' @ [CHR 0x27] @ ''level-'' @ show_nat level @ [CHR 0x27] @ ''><a href=''
          @ [CHR 0x27] @ ''#'' @ anchor @ [CHR 0x27] @ ''>'' @ heading_text @ ''</a></li>'')"

definition toc_html :: "(nat \<times> string \<times> string) list \<Rightarrow> string" where
  "toc_html entries =
     ''<nav class='' @ [CHR 0x27] @ ''toc'' @ [CHR 0x27] @ ''><h3>Table of Contents</h3><ul>''
       @ concat (map toc_item entries) @ ''</ul></nav>''"

definition toc_stage :: "string \<Rightarrow> string" where
  "toc_stage text = str_replace text ''@toc'' (toc_html (toc_entries text))"

text \<open>\<^verbatim>\<open>^### (.+)$\<close>, \<^verbatim>\<open>^## (.+)$\<close> and \<^verbatim>\<open>^# (.+)$\<close>, in this order (lines 82 to 84);
  \<open>heading_line n\<close> is the rewriting of one line by the pattern with \<open>n\<close> marks.\<close>

definition heading_line :: "nat \<Rightarrow> string \<Rightarrow> string" where
  \<open>heading_line n l =
     (if prefix (replicate n (CHR ''#'') @ '' '') l \<and> drop (Suc n) l \<noteq> [] then
        ''<h'' @ show_nat n @ '' id="'' @ str_replace (lower (drop (Suc n) l)) '' '' ''-''
          @ ''">'' @ drop (Suc n) l @ ''</h'' @ show_nat n @ ''>''
      else l)\<close>

definition headings_stage :: "string \<Rightarrow> string" where
  "headings_stage text =
     sub_lines (heading_line 1) (sub_lines (heading_line 2) (sub_lines (heading_line 3) text))"

section \<open>Task lists and lists\<close>

text \<open>\<^verbatim>\<open>^\- \[( |x|X)\] (.+)$\<close> with \<^verbatim>\<open>tasklist_replacer\<close>, then \<^verbatim>\<open>^\- (.+)$\<close>, then the
  wrap \<^verbatim>\<open>(<li>.*?</li>)\<close> under \<^verbatim>\<open>re.S\<close> (lines 109 to 122).\<close>

definition tasklist_line :: "string \<Rightarrow> string" where
  \<open>tasklist_line l =
     (if prefix ''- ['' l then
        (case drop 3 l of
           [] \<Rightarrow> l
         | mark # r \<Rightarrow>
             if (mark = CHR '' '' \<or> mark = CHR ''x'' \<or> mark = CHR ''X'') \<and> prefix ''] '' r
                \<and> drop 2 r \<noteq> []
             then ''<li class="task-item"><input type="checkbox" disabled''
                  @ (if lower [mark] = ''x'' then '' checked'' else []) @ ''> '' @ drop 2 r @ ''</li>''
             else l)
      else l)\<close>

definition list_line :: "string \<Rightarrow> string" where
  "list_line l =
     (if prefix ''- '' l \<and> drop 2 l \<noteq> [] then ''<li>'' @ drop 2 l @ ''</li>'' else l)"

definition li_match :: "string \<Rightarrow> (string \<times> nat) option" where
  "li_match s =
     (if prefix ''<li>'' s then
        (case split_first ''</li>'' (drop 4 s) of
           None \<Rightarrow> None
         | Some (body, rest) \<Rightarrow> Some (body, 4 + length body + 5))
      else None)"

definition wrap_lists :: "string \<Rightarrow> string" where
  "wrap_lists text = re_sub li_match (\<lambda>body. ''<ul><li>'' @ body @ ''</li></ul>'') text"

definition list_stage :: "string \<Rightarrow> string" where
  "list_stage text = wrap_lists (sub_lines list_line (sub_lines tasklist_line text))"

section \<open>General lemmas on scanning\<close>







lemma re_scan_skip:
  assumes "\<And>s. \<not> prefix kw s \<Longrightarrow> m s = None"
  shows "\<not> starts_within kw pre rest \<Longrightarrow> re_scan m (pre @ rest) = map Lit pre @ re_scan m rest"
  by (induction pre) (auto simp: assms)





lemma tok_hits_append: "tok_hits (xs @ ys) = tok_hits xs @ tok_hits ys"
  by (induction xs rule: tok_hits.induct) auto

lemma tok_hits_Lit: "tok_hits (map Lit pre) = []"
  by (induction pre) auto

section \<open>Alert blocks: the rendered container\<close>

lemma alert_match_no_prefix: "\<not> prefix ''@alert '' s \<Longrightarrow> alert_match s = None"
  by (simp add: alert_match_def)





section \<open>The include loop on a buffer without directives\<close>

lemma include_loop_none: "re_search include_match text = None \<Longrightarrow> include_loop fs b text = Some (Inr text)"
  by (subst include_loop.simps) simp


section \<open>Lists: each item is wrapped on its own\<close>

text \<open>
  C2.  The comment on line 121 announces that consecutive list items are wrapped in one
  list container.  The pattern of line 122, \<^verbatim>\<open>(<li>.*?</li>)\<close>, is lazy and matches one item
  at a time, so every item gets a container of its own: two adjacent items end up in two
  containers.  A converted task-list item opens with \<^verbatim>\<open><li class="task-item">\<close>, which the
  literal \<^verbatim>\<open><li>\<close> of the pattern does not match: it is never wrapped.
\<close>

theorem list_items_wrapped_one_by_one:
  \<open>list_stage (''- a'' @ newline # ''- b'')
     = ''<ul><li>a</li></ul>'' @ newline # ''<ul><li>b</li></ul>''
   \<and> list_stage (''- [x] t'' @ newline # ''- b'')
     = ''<li class="task-item"><input type="checkbox" disabled checked> t</li>'' @ newline
         # ''<ul><li>b</li></ul>''\<close>
  by (simp add: list_stage_def wrap_lists_def re_sub_def li_match_def sub_lines_def
      list_line_def tasklist_line_def newline_def lower_def lower_char_def)

section \<open>Variable substitution follows the order of the table\<close>







section \<open>The caller's variable table\<close>

lemma fold_update_map:
  "map_of (fold (\<lambda>m d. AList.update (fst m) (f (snd m)) d) ms d)
     = map_of d ++ map_of (rev (map (\<lambda>m. (fst m, f (snd m))) ms))"
proof (induction ms arbitrary: d)
  case Nil
  show ?case by simp
next
  case (Cons m ms)
  let ?F = "\<lambda>m d. AList.update (fst m) (f (snd m)) d"
  let ?M = "map_of (rev (map (\<lambda>m. (fst m, f (snd m))) ms))"
  have "map_of (fold ?F (m # ms) d) = map_of (fold ?F ms (AList.update (fst m) (f (snd m)) d))"
    by simp
  also have "\<dots> = map_of (AList.update (fst m) (f (snd m)) d) ++ ?M"
    by (rule Cons)
  also have "\<dots> = map_of d ++ map_of (rev (map (\<lambda>m. (fst m, f (snd m))) (m # ms)))"
    by (rule ext) (simp add: map_add_def update_conv' split: option.splits)
  finally show ?case .
qed

lemma collect_vars_map: "map_of (collect_vars d text) = map_of d ++ declared text"
  by (simp add: collect_vars_def declared_def fold_update_map)

text \<open>
  C9.  The caller hands in a reference \<open>r\<close> to an allocated table and the call returns
  (the include loop ends without an error).  When the caller's table is not empty, the
  call works on that very table: after the call it holds its old entries overridden by
  every declaration found in the buffer, under the same reference.  When the caller's table
  is empty, the call works on a freshly allocated table, which receives the declarations,
  and the caller's table is still empty.
\<close>

theorem caller_table_mutated_unless_empty:
  assumes "r < next_ref h"
    and "include_loop fs (case base_dir of None \<Rightarrow> [] | Some b \<Rightarrow> b) text = Some (Inr text')"
  shows "\<exists>fr. parse_front fs h text base_dir (Some r) platform = Some (Inr fr)
     \<and> (dicts h r \<noteq> [] \<longrightarrow>
          vars_ref fr = r
          \<and> map_of (dicts (store fr) r) = map_of (dicts h r) ++ declared (strip_titles text'))
     \<and> (dicts h r = [] \<longrightarrow>
          vars_ref fr = next_ref h \<and> vars_ref fr \<noteq> r \<and> dicts (store fr) r = []
          \<and> map_of (dicts (store fr) (vars_ref fr)) = declared (strip_titles text'))"
  using assms
  by (auto simp: parse_front_def bind_vars_def alloc_dict_def front_stages_def Let_def
      collect_vars_map)

theorem caller_table_mutated_unless_empty_witness:
  "(\<exists>fr. parse_front (\<lambda>p. None)
          \<lparr>dicts = (\<lambda>r. [])(0 := [(''site'', ''old''), (''X'', ''1'')]), next_ref = 1\<rparr>
          (''@var site=new '' @ newline # ''@var Y=2'' @ newline # ''body'') None (Some 0) None = Some (Inr fr)
      \<and> vars_ref fr = 0
      \<and> map_of (dicts (store fr) 0) ''site'' = Some ''new''
      \<and> map_of (dicts (store fr) 0) ''X'' = Some ''1''
      \<and> map_of (dicts (store fr) 0) ''Y'' = Some ''2'')
   \<and> (\<exists>fr. parse_front (\<lambda>p. None) \<lparr>dicts = (\<lambda>r. []), next_ref = 1\<rparr>
          (''@var site=new '' @ newline # ''@var Y=2'' @ newline # ''body'') None (Some 0) None = Some (Inr fr)
      \<and> vars_ref fr = 1
      \<and> dicts (store fr) 0 = []
      \<and> map_of (dicts (store fr) 1) ''site'' = Some ''new''
      \<and> map_of (dicts (store fr) 1) ''Y'' = Some ''2'')"
proof -
  let ?doc = "''@var site=new '' @ newline # ''@var Y=2'' @ newline # ''body''"
  let ?h0 = "\<lparr>dicts = (\<lambda>r. [])(0 := [(''site'', ''old''), (''X'', ''1'')]), next_ref = 1\<rparr>"
  let ?h1 = "\<lparr>dicts = (\<lambda>r. []), next_ref = 1\<rparr> :: heap"
  have inc: "include_loop (\<lambda>p. None) (case None of None \<Rightarrow> [] | Some b \<Rightarrow> b) ?doc = Some (Inr ?doc)"
    by (rule include_loop_none) (simp add: include_match_def newline_def)
  have st: "strip_titles ?doc = ?doc"
    by (simp add: strip_titles_def re_sub_def title_match_def newline_def)
  have d: "declared ?doc = [''site'' \<mapsto> ''new'', ''Y'' \<mapsto> ''2'']"
    by (rule ext) (simp add: declared_def re_findall_def var_match_def is_word_def newline_def
        strip_def is_space_def)
  have r0: "(0::nat) < next_ref ?h0" and r1: "(0::nat) < next_ref ?h1" by simp_all
  have ne: "dicts ?h0 0 \<noteq> []" and em: "dicts ?h1 0 = []" by simp_all
  from caller_table_mutated_unless_empty [OF r0 inc, of None]
  obtain fr0 where p0: "parse_front (\<lambda>p. None) ?h0 ?doc None (Some 0) None = Some (Inr fr0)"
    and a0: "dicts ?h0 0 \<noteq> [] \<longrightarrow> vars_ref fr0 = 0
        \<and> map_of (dicts (store fr0) 0) = map_of (dicts ?h0 0) ++ declared (strip_titles ?doc)"
    by blast
  from a0 ne have v0: "vars_ref fr0 = 0"
    and m0: "map_of (dicts (store fr0) 0) = map_of (dicts ?h0 0) ++ declared ?doc"
    unfolding st by blast+
  from caller_table_mutated_unless_empty [OF r1 inc, of None]
  obtain fr1 where p1: "parse_front (\<lambda>p. None) ?h1 ?doc None (Some 0) None = Some (Inr fr1)"
    and a1: "dicts ?h1 0 = [] \<longrightarrow> vars_ref fr1 = next_ref ?h1 \<and> vars_ref fr1 \<noteq> 0
        \<and> dicts (store fr1) 0 = []
        \<and> map_of (dicts (store fr1) (vars_ref fr1)) = declared (strip_titles ?doc)"
    by blast
  from a1 em have v1: "vars_ref fr1 = 1" and k1: "dicts (store fr1) 0 = []"
    and m1: "map_of (dicts (store fr1) 1) = declared ?doc"
    unfolding st by auto
  have "map_of (dicts (store fr0) 0) ''site'' = Some ''new''"
    "map_of (dicts (store fr0) 0) ''X'' = Some ''1''"
    "map_of (dicts (store fr0) 0) ''Y'' = Some ''2''"
    unfolding m0 d by (simp_all add: map_add_def)
  moreover have "map_of (dicts (store fr1) 1) ''site'' = Some ''new''"
    "map_of (dicts (store fr1) 1) ''Y'' = Some ''2''"
    unfolding m1 d by simp_all
  ultimately show ?thesis
    using p0 v0 p1 v1 k1 by blast
qed


end
